theory Spec2Isabelle
  imports Complex_Main "HOL-Library.Sublist" "HOL-Library.Word"
begin

section \<open>Python values and exceptions used by \<open>nengo/utils/numpy.py\<close>\<close>

text \<open>
  An exception raised by the module is a value. \<open>ValidationError\<close> is nengo's own
  exception; it carries the message and the \<open>attr\<close> keyword it was raised with. The
  other constructors are Python's built-in exception classes; none of them is a
  subclass of another.
\<close>

datatype error =
    ValueError string
  | TypeError string
  | IndexError string
  | ZeroDivisionError string
  | ValidationError string string

fun is_TypeError :: "error \<Rightarrow> bool" where
  "is_TypeError (TypeError m) = True"
| "is_TypeError e = False"

fun message :: "error \<Rightarrow> string" where
  "message (ValueError m) = m"
| "message (TypeError m) = m"
| "message (IndexError m) = m"
| "message (ZeroDivisionError m) = m"
| "message (ValidationError m a) = m"

fun attr :: "error \<Rightarrow> string option" where
  "attr (ValidationError m a) = Some a"
| "attr e = None"

text \<open>The \<open>%d\<close> conversion of Python's string formatting, for an integer.\<close>

fun digits :: "nat \<Rightarrow> string" where
  "digits n =
     (if n < 10 then [''0123456789'' ! n]
      else digits (n div 10) @ [''0123456789'' ! (n mod 10)])"

definition fmt_d :: "int \<Rightarrow> string" where
  "fmt_d i = (if i < 0 then CHR ''-'' # digits (nat (- i)) else digits (nat i))"

section \<open>\<open>compare\<close>\<close>

text \<open>
  \<open>compare\<close> applies the operands' own \<open>==\<close>, \<open>>\<close> and \<open><\<close>, in this order, and
  takes the truth value of each result. The three operators are a parameter: each
  gives the truth value, or the exception the comparison (or taking its truth value)
  raised. The result \<open>None\<close> is Python's \<open>None\<close>.
\<close>

record 'a cmp_ops =
  op_eq :: "'a \<Rightarrow> 'a \<Rightarrow> error + bool"
  op_gt :: "'a \<Rightarrow> 'a \<Rightarrow> error + bool"
  op_lt :: "'a \<Rightarrow> 'a \<Rightarrow> error + bool"

definition compare :: "'a cmp_ops \<Rightarrow> 'a \<Rightarrow> 'a \<Rightarrow> error + int option" where
  "compare ops a b =
     (case op_eq ops a b of
        Inl e \<Rightarrow> Inl e
      | Inr eq \<Rightarrow>
          if eq then Inr (Some 0)
          else (case op_gt ops a b of
                  Inl e \<Rightarrow> Inl e
                | Inr gt \<Rightarrow>
                    if gt then Inr (Some 1)
                    else (case op_lt ops a b of
                            Inl e \<Rightarrow> Inl e
                          | Inr lt \<Rightarrow> if lt then Inr (Some (- 1)) else Inr None)))"

text \<open>
  Operators are consistent when \<open>a == b\<close> holds exactly when \<open>b == a\<close> does,
  \<open>a > b\<close> holds exactly when \<open>b < a\<close> does, and \<open>a > b\<close> excludes \<open>a < b\<close>.
\<close>

definition consistent :: "'a cmp_ops \<Rightarrow> bool" where
  "consistent ops \<longleftrightarrow>
     (\<forall>a b. op_eq ops a b = Inr True \<longleftrightarrow> op_eq ops b a = Inr True) \<and>
     (\<forall>a b. op_gt ops a b = Inr True \<longleftrightarrow> op_lt ops b a = Inr True) \<and>
     (\<forall>a b. \<not> (op_gt ops a b = Inr True \<and> op_lt ops a b = Inr True))"

text \<open>
  Python's floats, as far as comparison goes: a finite value or NaN. Every comparison
  with NaN is false, also \<open>nan == nan\<close>.
\<close>

datatype pyfloat = Finite real | NaN

fun float_eq :: "pyfloat \<Rightarrow> pyfloat \<Rightarrow> bool" where
  "float_eq (Finite x) (Finite y) = (x = y)"
| "float_eq a b = False"

fun float_gt :: "pyfloat \<Rightarrow> pyfloat \<Rightarrow> bool" where
  "float_gt (Finite x) (Finite y) = (x > y)"
| "float_gt a b = False"

fun float_lt :: "pyfloat \<Rightarrow> pyfloat \<Rightarrow> bool" where
  "float_lt (Finite x) (Finite y) = (x < y)"
| "float_lt a b = False"

text \<open>
  Python's numbers: an \<open>int\<close>, a \<open>float\<close>, or a \<open>complex\<close> with its real and imaginary
  part. Numbers of different types are equal when their values are; ordering a
  complex number raises \<open>TypeError\<close> (the message is Python 3's).
\<close>

datatype pynum = PyInt int | PyFloat pyfloat | PyComplex pyfloat pyfloat

fun real_part :: "pynum \<Rightarrow> pyfloat" where
  "real_part (PyInt i) = Finite (real_of_int i)"
| "real_part (PyFloat x) = x"
| "real_part (PyComplex re im) = re"

fun imag_part :: "pynum \<Rightarrow> pyfloat" where
  "imag_part (PyInt i) = Finite 0"
| "imag_part (PyFloat x) = Finite 0"
| "imag_part (PyComplex re im) = im"

fun is_complex :: "pynum \<Rightarrow> bool" where
  "is_complex (PyComplex re im) = True"
| "is_complex x = False"

fun type_name :: "pynum \<Rightarrow> string" where
  "type_name (PyInt i) = ''int''"
| "type_name (PyFloat x) = ''float''"
| "type_name (PyComplex re im) = ''complex''"

definition quoted :: "string \<Rightarrow> string" where
  "quoted s = CHR 0x27 # s @ [CHR 0x27]"

definition num_eq :: "pynum \<Rightarrow> pynum \<Rightarrow> error + bool" where
  "num_eq a b =
     Inr (float_eq (real_part a) (real_part b) \<and> float_eq (imag_part a) (imag_part b))"

definition num_order ::
  "(pyfloat \<Rightarrow> pyfloat \<Rightarrow> bool) \<Rightarrow> string \<Rightarrow> pynum \<Rightarrow> pynum \<Rightarrow> error + bool" where
  "num_order rel opname a b =
     (if is_complex a \<or> is_complex b
      then Inl (TypeError (quoted opname @ '' not supported between instances of ''
                             @ quoted (type_name a) @ '' and '' @ quoted (type_name b)))
      else Inr (rel (real_part a) (real_part b)))"

definition num_ops :: "pynum cmp_ops" where
  "num_ops = \<lparr>op_eq = num_eq, op_gt = num_order float_gt ''>'', op_lt = num_order float_lt ''<''\<rparr>"

text \<open>
  The operators of a class whose instances are never equal and always greater:
  \<open>__eq__\<close> returns \<open>False\<close>, \<open>__gt__\<close> returns \<open>True\<close>, \<open>__lt__\<close> returns \<open>False\<close>.
\<close>

definition always_gt_ops :: "unit cmp_ops" where
  "always_gt_ops = \<lparr>op_eq = (\<lambda>a b. Inr False), op_gt = (\<lambda>a b. Inr True),
                     op_lt = (\<lambda>a b. Inr False)\<rparr>"

section \<open>\<open>as_shape\<close>\<close>

text \<open>
  The argument of \<open>as_shape\<close> by what \<open>is_iterable\<close> and \<open>is_integer\<close> say about it:
  an iterable with its items in iteration order, an integer, or any other object,
  given by its \<open>repr\<close>. The items of an iterable are Python objects again.
\<close>

datatype pyobj = Integer int | Iterable "pyobj list" | Other string

fun is_Integer :: "pyobj \<Rightarrow> bool" where
  "is_Integer (Integer i) = True"
| "is_Integer x = False"

definition as_shape :: "pyobj \<Rightarrow> int \<Rightarrow> error + pyobj list" where
  "as_shape x min_dim =
     (case (case x of
              Iterable xs \<Rightarrow> Inr xs
            | Integer i \<Rightarrow> Inr [Integer i]
            | Other r \<Rightarrow> Inl (ValueError (r @ '' cannot be safely converted to a shape'')))
      of Inl e \<Rightarrow> Inl e
       | Inr shape \<Rightarrow>
           if int (length shape) < min_dim
           then Inr (replicate (nat (min_dim - int (length shape))) (Integer 1) @ shape)
           else Inr shape)"

section \<open>\<open>broadcast_shape\<close>\<close>

definition broadcast_shape :: "int list \<Rightarrow> int \<Rightarrow> int list" where
  "broadcast_shape shape len =
     (let n = int (length shape)
      in if n < len then replicate (nat (len - n)) 1 @ shape else shape)"

section \<open>\<open>array\<close>\<close>

text \<open>
  The array \<open>y = np.array(x, **kwargs)\<close>: its shape, its elements in row-major order
  and its writeable flag. \<open>array\<close> works on \<open>y\<close> alone, so the model takes \<open>y\<close>, and
  Numpy's limit on the number of axes, \<open>maxdims\<close>.
\<close>

record 'a ndarray =
  shape :: "nat list"
  data :: "'a list"
  writeable :: bool

definition ndim :: "'a ndarray \<Rightarrow> nat" where
  "ndim y = length (shape y)"

text \<open>
  \<open>y.shape = s\<close> reshapes in place: it keeps the buffer. It fails when \<open>s\<close> has more
  axes than Numpy allows (\<open>maxdims\<close>: 32, and 64 from Numpy 2 on; the wording of the
  message differs between versions), and when \<open>s\<close> does not hold as many elements as
  the old shape.
\<close>

definition set_shape :: "nat \<Rightarrow> 'a ndarray \<Rightarrow> nat list \<Rightarrow> error + 'a ndarray" where
  "set_shape maxdims y s =
     (if maxdims < length s
      then Inl (ValueError (''maximum supported dimension for an ndarray is ''
                              @ fmt_d (int maxdims) @ '', found '' @ fmt_d (int (length s))))
      else if prod_list s \<noteq> prod_list (shape y)
      then Inl (ValueError ''total size of new array must be unchanged'')
      else Inr (y\<lparr>shape := s\<rparr>))"

text \<open>\<open>shape = np.ones(dims); shape[:y.ndim] = y.shape\<close>\<close>

definition padded_shape :: "'a ndarray \<Rightarrow> int \<Rightarrow> nat list" where
  "padded_shape y dims = shape y @ drop (ndim y) (replicate (nat dims) 1)"

definition array ::
  "nat \<Rightarrow> 'a ndarray \<Rightarrow> int option \<Rightarrow> int \<Rightarrow> bool \<Rightarrow> error + 'a ndarray" where
  "array maxdims y dims_arg min_dims readonly =
     (let dims = (case dims_arg of None \<Rightarrow> max min_dims (int (ndim y)) | Some d \<Rightarrow> d)
      in case (if int (ndim y) < dims then set_shape maxdims y (padded_shape y dims)
               else if int (ndim y) > dims
               then Inl (ValidationError
                           (''Input cannot be cast to array with '' @ fmt_d dims @ '' dimensions'')
                           ''dims'')
               else Inr y)
         of Inl e \<Rightarrow> Inl e
          | Inr y' \<Rightarrow> Inr (if readonly then y'\<lparr>writeable := False\<rparr> else y'))"

section \<open>\<open>array_hash\<close>\<close>

text \<open>
  \<open>array_hash\<close> makes a view of its argument and sets a flag of the view, so arrays
  live in a store. An array object has a dtype, a shape, a writeable flag, the object
  it is a view of, the buffer that holds its elements, and the positions in that
  buffer of its elements in row-major order: a view shares the buffer of its base.
\<close>

type_synonym addr = nat

record ndobj =
  obj_dtype :: string
  obj_shape :: "nat list"
  obj_writeable :: bool
  obj_base :: "addr option"
  obj_buffer :: nat
  obj_elems :: "nat list"

record 'a heap =
  objs :: "ndobj list"
  bufs :: "'a list list"

definition valid :: "'a heap \<Rightarrow> addr \<Rightarrow> bool" where
  "valid h p \<longleftrightarrow> p < length (objs h) \<and> obj_buffer (objs h ! p) < length (bufs h)"

definition contents :: "'a heap \<Rightarrow> ndobj \<Rightarrow> 'a list" where
  "contents h ob = map (\<lambda>i. bufs h ! obj_buffer ob ! i) (obj_elems ob)"

text \<open>\<open>a.size\<close>\<close>

definition size_of :: "ndobj \<Rightarrow> nat" where
  "size_of ob = prod_list (obj_shape ob)"

text \<open>\<open>a.view()\<close>: a new object on the same buffer, with the flags of \<open>a\<close>.\<close>

definition new_view :: "'a heap \<Rightarrow> addr \<Rightarrow> addr \<times> 'a heap" where
  "new_view h p =
     (length (objs h), h\<lparr>objs := objs h @ [(objs h ! p)\<lparr>obj_base := Some p\<rparr>]\<rparr>)"

text \<open>The array an indexing with index arrays returns: a new object on a new buffer.\<close>

definition new_array :: "'a heap \<Rightarrow> string \<Rightarrow> nat list \<Rightarrow> 'a list \<Rightarrow> addr \<times> 'a heap" where
  "new_array h dt s d =
     (length (objs h),
      h\<lparr>objs := objs h @
                 [\<lparr>obj_dtype = dt, obj_shape = s, obj_writeable = True, obj_base = None,
                   obj_buffer = length (bufs h), obj_elems = [0..<length d]\<rparr>],
        bufs := bufs h @ [d]\<rparr>)"

text \<open>\<open>v.setflags(write=False)\<close>: clearing the flag never fails.\<close>

definition set_readonly :: "'a heap \<Rightarrow> addr \<Rightarrow> 'a heap" where
  "set_readonly h v = h\<lparr>objs := (objs h)[v := (objs h ! v)\<lparr>obj_writeable := False\<rparr>]\<rparr>"

text \<open>
  What \<open>array_hash\<close> takes from Python and Numpy: the constant \<open>PY2\<close> of
  \<open>nengo.utils.compat\<close>; the built-in \<open>hash\<close>, of an object that is not an array, of a
  Python 2 buffer and of a byte string; \<open>v.data\<close>, the buffer over the elements of an
  array, given by its bytes, which Numpy refuses for a dtype that cannot be exported
  (\<open>datetime64\<close>); the generator \<open>RandomState(seed)\<close>, which refuses a seed it cannot
  take, with \<open>randint(low, high, size)\<close>, which returns the drawn numbers and the
  generator's next state; and the indexing \<open>a[inds]\<close> with the list of index arrays,
  from the shape and the elements of \<open>a\<close> to those of the result. An element \<open>'a\<close> is
  what the array stores, so two elements that compare equal, as \<open>0.0\<close> and \<open>-0.0\<close> do,
  need not be the same element.
\<close>

record ('a, 'o, 'r) pyenv =
  PY2 :: bool
  hash_obj :: "'o \<Rightarrow> error + int"
  hash_buffer :: "8 word list \<Rightarrow> int"
  hash_bytes :: "8 word list \<Rightarrow> int"
  buffer_of :: "string \<Rightarrow> 'a list \<Rightarrow> error + 8 word list"
  RandomState :: "nat \<Rightarrow> error + 'r"
  randint :: "'r \<Rightarrow> int \<Rightarrow> int \<Rightarrow> int \<Rightarrow> error + (int list \<times> 'r)"
  getitem :: "nat list \<Rightarrow> 'a list \<Rightarrow> int list list \<Rightarrow> error + (nat list \<times> 'a list)"

text \<open>
  \<open>hash(v.data if PY2 else v.data.tobytes())\<close>. \<open>v.data\<close> comes first and may fail;
  Python 2 refuses to hash the buffer of a writeable array; \<open>tobytes\<close> gives the bytes
  of the buffer.
\<close>

definition hash_data :: "('a, 'o, 'r) pyenv \<Rightarrow> 'a heap \<Rightarrow> addr \<Rightarrow> error + int" where
  "hash_data env h v =
     (let ob = objs h ! v
      in case buffer_of env (obj_dtype ob) (contents h ob) of
           Inl e \<Rightarrow> Inl e
         | Inr bs \<Rightarrow>
             if PY2 env
             then if obj_writeable ob then Inl (TypeError ''writable buffers are not hashable'')
                  else Inr (hash_buffer env bs)
             else Inr (hash_bytes env bs))"

text \<open>What \<open>hash_data\<close> gives for a read-only array of dtype \<open>dt\<close> and elements \<open>d\<close>.\<close>

definition hash_contents :: "('a, 'o, 'r) pyenv \<Rightarrow> string \<Rightarrow> 'a list \<Rightarrow> error + int" where
  "hash_contents env dt d =
     (case buffer_of env dt d of
        Inl e \<Rightarrow> Inl e
      | Inr bs \<Rightarrow> Inr (if PY2 env then hash_buffer env bs else hash_bytes env bs))"

text \<open>\<open>[rng.randint(0, a.shape[i], size=n) for i in range(a.ndim)]\<close>\<close>

fun sample :: "('a, 'o, 'r) pyenv \<Rightarrow> 'r \<Rightarrow> nat list \<Rightarrow> int \<Rightarrow> error + int list list" where
  "sample env rng [] n = Inr []"
| "sample env rng (s # ss) n =
     (case randint env rng 0 (int s) n of
        Inl e \<Rightarrow> Inl e
      | Inr (xs, rng') \<Rightarrow>
          (case sample env rng' ss n of
             Inl e \<Rightarrow> Inl e
           | Inr rest \<Rightarrow> Inr (xs # rest)))"

text \<open>\<open>rng = np.random.RandomState(a.size)\<close>, then the list \<open>inds\<close>.\<close>

definition indices :: "('a, 'o, 'r) pyenv \<Rightarrow> ndobj \<Rightarrow> int \<Rightarrow> error + int list list" where
  "indices env ob n =
     (case RandomState env (size_of ob) of
        Inl e \<Rightarrow> Inl e
      | Inr rng \<Rightarrow> sample env rng (obj_shape ob) n)"

datatype 'o pyarg = NotArray 'o | Array addr

definition array_hash ::
  "('a, 'o, 'r) pyenv \<Rightarrow> 'a heap \<Rightarrow> 'o pyarg \<Rightarrow> int \<Rightarrow> (error + int) \<times> 'a heap" where
  "array_hash env h a n =
     (case a of
        NotArray x \<Rightarrow> (hash_obj env x, h)
      | Array p \<Rightarrow>
          (let ob = objs h ! p
           in if int (size_of ob) < n
              then (let (v, h1) = new_view h p;
                        h2 = set_readonly h1 v
                    in (hash_data env h2 v, h2))
              else (case indices env ob n of
                      Inl e \<Rightarrow> (Inl e, h)
                    | Inr inds \<Rightarrow>
                        (case getitem env (obj_shape ob) (contents h ob) inds of
                           Inl e \<Rightarrow> (Inl e, h)
                         | Inr (s, d) \<Rightarrow>
                             (let (v, h1) = new_array h (obj_dtype ob) s d;
                                  h2 = set_readonly h1 v
                              in (hash_data env h2 v, h2))))))"


text \<open>
  An environment to run \<open>array_hash\<close> on examples: the hash of a byte string is the
  sum of its bytes, and the generator is a counter. Indexing follows Numpy 1.23 and
  later, which reads the list of index arrays as one index array on the first axis:
  the result holds, for each index, the elements under that index of the first axis.
  On a one-dimensional array the earlier reading, one index array per axis, selects
  the same elements in the same order.
\<close>

definition ex_getitem :: "nat list \<Rightarrow> 'a list \<Rightarrow> int list list \<Rightarrow> error + (nat list \<times> 'a list)" where
  "ex_getitem shp d inds =
     (case shp of
        [] \<Rightarrow> Inl (IndexError ''too many indices for array'')
      | s # rest \<Rightarrow>
          if \<exists>l \<in> set inds. length l \<noteq> length (hd inds)
          then Inl (ValueError ''setting an array element with a sequence'')
          else if \<exists>l \<in> set inds. \<exists>i \<in> set l. i < - int s \<or> int s \<le> i
          then Inl (IndexError ''index out of bounds'')
          else Inr ((if inds = [] then [0] else [length inds, length (hd inds)]) @ rest,
                    concat (map (\<lambda>l. concat (map (\<lambda>i. take (prod_list rest)
                                   (drop (nat (i mod int s) * prod_list rest) d)) l)) inds)))"

definition ex_randint :: "nat \<Rightarrow> int \<Rightarrow> int \<Rightarrow> int \<Rightarrow> error + (int list \<times> nat)" where
  "ex_randint rng lo hi k =
     (if hi \<le> lo then Inl (ValueError ''low >= high'')
      else if k < 0 then Inl (ValueError ''negative dimensions are not allowed'')
      else Inr (map (\<lambda>j. lo + int (rng + j) mod (hi - lo)) [0..<nat k], rng + nat k))"

definition ex_env_with ::
  "(string \<Rightarrow> 'a list \<Rightarrow> error + 8 word list) \<Rightarrow> ('a, int, nat) pyenv" where
  "ex_env_with buf = \<lparr>PY2 = False,
             hash_obj = (\<lambda>x. Inr x),
             hash_buffer = (\<lambda>bs. sum_list (map uint bs)),
             hash_bytes = (\<lambda>bs. sum_list (map uint bs)),
             buffer_of = buf,
             RandomState = (\<lambda>seed. Inr seed),
             randint = ex_randint,
             getitem = ex_getitem\<rparr>"

text \<open>Arrays of dtype \<open>int8\<close>: an element is an integer, stored in one byte.\<close>

definition ex_env :: "(int, int, nat) pyenv" where
  "ex_env = ex_env_with (\<lambda>dt d. Inr (map word_of_int d))"

definition ex_heap :: "int heap" where
  "ex_heap = \<lparr>objs = [\<lparr>obj_dtype = ''int8'', obj_shape = [4], obj_writeable = True,
                        obj_base = None, obj_buffer = 0, obj_elems = [0, 1, 2, 3]\<rparr>,
                      \<lparr>obj_dtype = ''int8'', obj_shape = [4], obj_writeable = False,
                        obj_base = None, obj_buffer = 1, obj_elems = [0, 1, 2, 3]\<rparr>],
               bufs = [[5, 6, 7, 8], [5, 6, 7, 8]]\<rparr>"






section \<open>\<open>norm\<close>, \<open>rms\<close>, \<open>rmse\<close>\<close>

text \<open>
  The Numpy operations the three functions are built from, on Numpy's arrays
  \<open>'arr\<close> with axis arguments \<open>'ax\<close>: \<open>x - y\<close>, which fails when the shapes do not
  broadcast, \<open>x**2\<close>, \<open>np.sum\<close> and \<open>np.mean\<close> with \<open>axis\<close> and \<open>keepdims\<close>, which fail on
  an axis the array does not have, and \<open>np.sqrt\<close>.
\<close>

record ('arr, 'ax) np_ops =
  np_subtract :: "'arr \<Rightarrow> 'arr \<Rightarrow> error + 'arr"
  np_square :: "'arr \<Rightarrow> 'arr"
  np_sum :: "'arr \<Rightarrow> 'ax \<Rightarrow> bool \<Rightarrow> error + 'arr"
  np_mean :: "'arr \<Rightarrow> 'ax \<Rightarrow> bool \<Rightarrow> error + 'arr"
  np_sqrt :: "'arr \<Rightarrow> 'arr"

definition norm_l2 :: "('arr, 'ax) np_ops \<Rightarrow> 'arr \<Rightarrow> 'ax \<Rightarrow> bool \<Rightarrow> error + 'arr" where
  "norm_l2 np x axis keepdims =
     (case np_sum np (np_square np x) axis keepdims of
        Inl e \<Rightarrow> Inl e
      | Inr s \<Rightarrow> Inr (np_sqrt np s))"

definition rms :: "('arr, 'ax) np_ops \<Rightarrow> 'arr \<Rightarrow> 'ax \<Rightarrow> bool \<Rightarrow> error + 'arr" where
  "rms np x axis keepdims =
     (case np_mean np (np_square np x) axis keepdims of
        Inl e \<Rightarrow> Inl e
      | Inr m \<Rightarrow> Inr (np_sqrt np m))"

definition rmse :: "('arr, 'ax) np_ops \<Rightarrow> 'arr \<Rightarrow> 'arr \<Rightarrow> 'ax \<Rightarrow> bool \<Rightarrow> error + 'arr" where
  "rmse np x y axis keepdims =
     (case np_subtract np x y of
        Inl e \<Rightarrow> Inl e
      | Inr d \<Rightarrow> rms np d axis keepdims)"

text \<open>
  The specification's wording of \<open>rmse\<close>: the element-wise difference first, then the
  square root of the mean of the squared elements.
\<close>

definition rmse_spec :: "('arr, 'ax) np_ops \<Rightarrow> 'arr \<Rightarrow> 'arr \<Rightarrow> 'ax \<Rightarrow> bool \<Rightarrow> error + 'arr" where
  "rmse_spec np x y axis keepdims =
     (case np_subtract np x y of
        Inl e \<Rightarrow> Inl e
      | Inr d \<Rightarrow>
          (case np_mean np (np_square np d) axis keepdims of
             Inl e \<Rightarrow> Inl e
           | Inr m \<Rightarrow> Inr (np_sqrt np m)))"

text \<open>
  The operations on one-dimensional arrays of floats with \<open>axis=None\<close>, to run the
  functions on examples. Float arithmetic is taken without rounding; an operation on
  NaN gives NaN, as do the mean of no elements and the square root of a negative
  number. A result of no dimensions is a list of one element.
\<close>

fun float_sub :: "pyfloat \<Rightarrow> pyfloat \<Rightarrow> pyfloat" where
  "float_sub (Finite x) (Finite y) = Finite (x - y)"
| "float_sub a b = NaN"

fun float_add :: "pyfloat \<Rightarrow> pyfloat \<Rightarrow> pyfloat" where
  "float_add (Finite x) (Finite y) = Finite (x + y)"
| "float_add a b = NaN"

fun float_sq :: "pyfloat \<Rightarrow> pyfloat" where
  "float_sq (Finite x) = Finite (x * x)"
| "float_sq NaN = NaN"

fun float_sqrt :: "pyfloat \<Rightarrow> pyfloat" where
  "float_sqrt (Finite x) = (if x < 0 then NaN else Finite (sqrt x))"
| "float_sqrt NaN = NaN"

fun float_div_nat :: "pyfloat \<Rightarrow> nat \<Rightarrow> pyfloat" where
  "float_div_nat (Finite x) k = (if k = 0 then NaN else Finite (x / real k))"
| "float_div_nat NaN k = NaN"

definition ex_subtract :: "pyfloat list \<Rightarrow> pyfloat list \<Rightarrow> error + pyfloat list" where
  "ex_subtract xs ys =
     (if length xs = length ys then Inr (map2 float_sub xs ys)
      else if length ys = 1 then Inr (map (\<lambda>a. float_sub a (hd ys)) xs)
      else if length xs = 1 then Inr (map (\<lambda>b. float_sub (hd xs) b) ys)
      else Inl (ValueError ''operands could not be broadcast together''))"

definition ex_np :: "(pyfloat list, unit) np_ops" where
  "ex_np = \<lparr>np_subtract = ex_subtract,
            np_square = map float_sq,
            np_sum = (\<lambda>xs ax kd. Inr [foldl float_add (Finite 0) xs]),
            np_mean = (\<lambda>xs ax kd. Inr [float_div_nat (foldl float_add (Finite 0) xs) (length xs)]),
            np_sqrt = map float_sqrt\<rparr>"

section \<open>\<open>rfftfreq\<close>\<close>

text \<open>\<open>xs[:k]\<close>: a negative \<open>k\<close> counts from the end.\<close>

definition slice_to :: "'a list \<Rightarrow> int \<Rightarrow> 'a list" where
  "slice_to xs k = (if 0 \<le> k then take (nat k) xs else take (nat (int (length xs) + k)) xs)"

text \<open>
  The definition the module falls back to when Numpy has no \<open>rfftfreq\<close>. Numpy's
  \<open>np.fft.fftfreq\<close> is a parameter; frequencies are real numbers.
\<close>

definition rfftfreq :: "(int \<Rightarrow> real \<Rightarrow> error + real list) \<Rightarrow> int \<Rightarrow> real \<Rightarrow> error + real list" where
  "rfftfreq fftfreq n d =
     (case fftfreq n d of
        Inl e \<Rightarrow> Inl e
      | Inr fs \<Rightarrow> Inr (map abs (slice_to fs (n div 2 + 1))))"

text \<open>
  Numpy's \<open>fftfreq\<close>, after its documentation: the \<open>n\<close> frequencies
  \<open>0, 1, ..., (n-1)//2, -(n//2), ..., -1\<close>, each times \<open>1/(n*d)\<close>.
\<close>

definition np_fftfreq :: "int \<Rightarrow> real \<Rightarrow> error + real list" where
  "np_fftfreq n d =
     (if n < 0 then Inl (ValueError ''negative dimensions are not allowed'')
      else if real_of_int n * d = 0 then Inl (ZeroDivisionError ''float division by zero'')
      else Inr (map (\<lambda>k. real_of_int k * (1 / (real_of_int n * d)))
                  ([0..(n - 1) div 2] @ [- (n div 2)..- 1])))"

section \<open>Properties of \<open>compare\<close>\<close>

lemma float_eq_sym: "float_eq x y = float_eq y x"
  by (cases x; cases y) auto

lemma float_gt_lt: "float_gt x y = float_lt y x"
  by (cases x; cases y) auto

lemma float_gt_not_lt: "\<not> (float_gt x y \<and> float_lt x y)"
  by (cases x; cases y) auto

lemma num_ops_consistent: "consistent num_ops"
  unfolding consistent_def
proof (intro conjI allI)
  fix a b :: pynum
  show "op_eq num_ops a b = Inr True \<longleftrightarrow> op_eq num_ops b a = Inr True"
    by (simp add: num_ops_def num_eq_def float_eq_sym [of "real_part a"]
        float_eq_sym [of "imag_part a"])
  show "op_gt num_ops a b = Inr True \<longleftrightarrow> op_lt num_ops b a = Inr True"
    by (auto simp: num_ops_def num_order_def float_gt_lt)
  show "\<not> (op_gt num_ops a b = Inr True \<and> op_lt num_ops a b = Inr True)"
    using float_gt_not_lt [of "real_part a" "real_part b"]
    by (auto simp: num_ops_def num_order_def)
qed

lemma compare_anti:
  assumes c: "consistent ops" and ab: "compare ops a b = Inr (Some v)"
    and ba: "compare ops b a = Inr (Some w)"
  shows "v = - w"
proof -
  from c have sym: "op_eq ops b a = Inr True \<longleftrightarrow> op_eq ops a b = Inr True"
    and flip1: "op_gt ops b a = Inr True \<longleftrightarrow> op_lt ops a b = Inr True"
    and flip2: "op_lt ops b a = Inr True \<longleftrightarrow> op_gt ops a b = Inr True"
    and excl: "\<not> (op_gt ops a b = Inr True \<and> op_lt ops a b = Inr True)"
    unfolding consistent_def by blast+
  from ab ba sym flip1 flip2 excl show ?thesis
    unfolding compare_def by (auto split: sum.splits if_splits)
qed

text \<open>
  Claim C8, as amended. When no comparison raises, \<open>compare(a, b)\<close> is 0 when
  \<open>a == b\<close>; otherwise 1 when \<open>a > b\<close>; otherwise -1 when \<open>a < b\<close>; otherwise \<open>None\<close>.
  When a comparison it reaches raises, \<open>compare\<close> raises that error. For operands with
  consistent operators, which Python's numbers have, \<open>compare(a, b) == -compare(b, a)\<close>
  whenever neither is \<open>None\<close>. And \<open>compare(a, a)\<close> is 0 exactly when \<open>a == a\<close> holds;
  for NaN it is \<open>None\<close>.
\<close>

theorem compare_three_way:
  "(op_eq ops a b = Inr True \<longrightarrow> compare ops a b = Inr (Some 0))
   \<and> (op_eq ops a b = Inr False \<and> op_gt ops a b = Inr True \<longrightarrow> compare ops a b = Inr (Some 1))
   \<and> (op_eq ops a b = Inr False \<and> op_gt ops a b = Inr False \<and> op_lt ops a b = Inr True
        \<longrightarrow> compare ops a b = Inr (Some (- 1)))
   \<and> (op_eq ops a b = Inr False \<and> op_gt ops a b = Inr False \<and> op_lt ops a b = Inr False
        \<longrightarrow> compare ops a b = Inr None)
   \<and> (op_eq ops a b = Inl e \<longrightarrow> compare ops a b = Inl e)
   \<and> (op_eq ops a b = Inr False \<and> op_gt ops a b = Inl e \<longrightarrow> compare ops a b = Inl e)
   \<and> (op_eq ops a b = Inr False \<and> op_gt ops a b = Inr False \<and> op_lt ops a b = Inl e
        \<longrightarrow> compare ops a b = Inl e)
   \<and> (consistent ops \<longrightarrow> compare ops a b = Inr (Some v) \<longrightarrow> compare ops b a = Inr (Some w)
        \<longrightarrow> v = - w)
   \<and> consistent num_ops
   \<and> (compare ops a a = Inr (Some 0) \<longleftrightarrow> op_eq ops a a = Inr True)
   \<and> compare num_ops (PyFloat NaN) (PyFloat NaN) = Inr None"
proof -
  have refl: "compare ops a a = Inr (Some 0) \<longleftrightarrow> op_eq ops a a = Inr True"
    unfolding compare_def by (auto split: sum.splits)
  have nan: "compare num_ops (PyFloat NaN) (PyFloat NaN) = Inr None"
    by (simp add: compare_def num_ops_def num_eq_def num_order_def)
  have chain: "(op_eq ops a b = Inr True \<longrightarrow> compare ops a b = Inr (Some 0))
   \<and> (op_eq ops a b = Inr False \<and> op_gt ops a b = Inr True \<longrightarrow> compare ops a b = Inr (Some 1))
   \<and> (op_eq ops a b = Inr False \<and> op_gt ops a b = Inr False \<and> op_lt ops a b = Inr True
        \<longrightarrow> compare ops a b = Inr (Some (- 1)))
   \<and> (op_eq ops a b = Inr False \<and> op_gt ops a b = Inr False \<and> op_lt ops a b = Inr False
        \<longrightarrow> compare ops a b = Inr None)
   \<and> (op_eq ops a b = Inl e \<longrightarrow> compare ops a b = Inl e)
   \<and> (op_eq ops a b = Inr False \<and> op_gt ops a b = Inl e \<longrightarrow> compare ops a b = Inl e)
   \<and> (op_eq ops a b = Inr False \<and> op_gt ops a b = Inr False \<and> op_lt ops a b = Inl e
        \<longrightarrow> compare ops a b = Inl e)"
    unfolding compare_def by simp
  from chain compare_anti [of ops a b v w] num_ops_consistent refl nan
  show ?thesis by blast
qed

text \<open>The theorem at numbers: 1 and 2.0, 2 and 2.0, 1.0 and NaN, 1 and 1j.\<close>

theorem compare_three_way_witness:
  "consistent num_ops
   \<and> compare num_ops (PyInt 1) (PyFloat (Finite 2)) = Inr (Some (- 1))
   \<and> compare num_ops (PyFloat (Finite 2)) (PyInt 1) = Inr (Some 1)
   \<and> compare num_ops (PyInt 2) (PyFloat (Finite 2)) = Inr (Some 0)
   \<and> compare num_ops (PyFloat (Finite 1)) (PyFloat NaN) = Inr None
   \<and> compare num_ops (PyInt 1) (PyComplex (Finite 0) (Finite 1)) =
       Inl (TypeError (quoted ''>'' @ '' not supported between instances of ''
                         @ quoted ''int'' @ '' and '' @ quoted ''complex''))"
proof -
  note t = compare_three_way [where ops = num_ops]
  have e1: "op_eq num_ops (PyInt 1) (PyFloat (Finite 2)) = Inr False"
    "op_gt num_ops (PyInt 1) (PyFloat (Finite 2)) = Inr False"
    "op_lt num_ops (PyInt 1) (PyFloat (Finite 2)) = Inr True"
    by (simp_all add: num_ops_def num_eq_def num_order_def)
  have e2: "op_eq num_ops (PyFloat (Finite 2)) (PyInt 1) = Inr False"
    "op_gt num_ops (PyFloat (Finite 2)) (PyInt 1) = Inr True"
    by (simp_all add: num_ops_def num_eq_def num_order_def)
  have e3: "op_eq num_ops (PyInt 2) (PyFloat (Finite 2)) = Inr True"
    by (simp add: num_ops_def num_eq_def)
  have e4: "op_eq num_ops (PyFloat (Finite 1)) (PyFloat NaN) = Inr False"
    "op_gt num_ops (PyFloat (Finite 1)) (PyFloat NaN) = Inr False"
    "op_lt num_ops (PyFloat (Finite 1)) (PyFloat NaN) = Inr False"
    by (simp_all add: num_ops_def num_eq_def num_order_def)
  have e5: "op_eq num_ops (PyInt 1) (PyComplex (Finite 0) (Finite 1)) = Inr False"
    "op_gt num_ops (PyInt 1) (PyComplex (Finite 0) (Finite 1)) =
       Inl (TypeError (quoted ''>'' @ '' not supported between instances of ''
                         @ quoted ''int'' @ '' and '' @ quoted ''complex''))"
    by (simp_all add: num_ops_def num_eq_def num_order_def)
  from t [of "PyInt 1" "PyFloat (Finite 2)"] e1
  have c1: "compare num_ops (PyInt 1) (PyFloat (Finite 2)) = Inr (Some (- 1))" by blast
  from t [of "PyFloat (Finite 2)" "PyInt 1"] e2
  have c2: "compare num_ops (PyFloat (Finite 2)) (PyInt 1) = Inr (Some 1)" by blast
  from t [of "PyInt 2" "PyFloat (Finite 2)"] e3
  have c3: "compare num_ops (PyInt 2) (PyFloat (Finite 2)) = Inr (Some 0)" by blast
  from t [of "PyFloat (Finite 1)" "PyFloat NaN"] e4
  have c4: "compare num_ops (PyFloat (Finite 1)) (PyFloat NaN) = Inr None" by blast
  from t [of "PyInt 1" "PyComplex (Finite 0) (Finite 1)" "TypeError (quoted ''>'' @ '' not supported between instances of ''
                         @ quoted ''int'' @ '' and '' @ quoted ''complex'')"] e5
  have c5: "compare num_ops (PyInt 1) (PyComplex (Finite 0) (Finite 1)) =
       Inl (TypeError (quoted ''>'' @ '' not supported between instances of ''
                         @ quoted ''int'' @ '' and '' @ quoted ''complex''))" by blast
  from t [of "PyInt 1" "PyInt 1"] have "consistent num_ops" by blast
  with c1 c2 c3 c4 c5 show ?thesis by (intro conjI)
qed

text \<open>
  Claim C8 as stated fails. \<open>compare(nan, nan)\<close> is \<open>None\<close>, not 0, since \<open>nan == nan\<close>
  is false. \<open>compare(1j, 2j)\<close> returns nothing: \<open>1j > 2j\<close> raises \<open>TypeError\<close>. And for
  two instances of a class that are never equal and always greater, \<open>compare\<close> is 1
  both ways, which is not minus itself.
\<close>

theorem compare_counterexample:
  "compare num_ops (PyFloat NaN) (PyFloat NaN) = Inr None
   \<and> compare num_ops (PyComplex (Finite 0) (Finite 1)) (PyComplex (Finite 0) (Finite 2)) =
       Inl (TypeError (quoted ''>'' @ '' not supported between instances of ''
                         @ quoted ''complex'' @ '' and '' @ quoted ''complex''))
   \<and> compare always_gt_ops () () = Inr (Some 1)
   \<and> (1 :: int) \<noteq> - 1"
  by (simp add: compare_def num_ops_def num_eq_def num_order_def always_gt_ops_def)

section \<open>Properties of \<open>as_shape\<close>\<close>

text \<open>
  Claim C3, as amended. For an iterable, \<open>as_shape\<close> returns the tuple of its items,
  unchanged and in order; for an integer \<open>x\<close>, the tuple \<open>(x,)\<close>. A result of fewer
  than \<open>min_dim\<close> entries is left-padded with the integer 1 to exactly \<open>min_dim\<close>
  entries, and a longer one is left as it is. The entries are integers when the items
  of the iterable are. \<open>as_shape([2,3]) == (2,3)\<close>, \<open>as_shape(5) == (5,)\<close>,
  \<open>as_shape(5, min_dim=3) == (1,1,5)\<close>.
\<close>

theorem as_shape_tuple:
  "as_shape (Iterable xs) m = Inr (replicate (nat (m - int (length xs))) (Integer 1) @ xs)
   \<and> as_shape (Integer i) m = Inr (replicate (nat (m - 1)) (Integer 1) @ [Integer i])
   \<and> (as_shape x 0 = Inr s \<and> int (length s) < m \<longrightarrow>
        as_shape x m = Inr (replicate (nat m - length s) (Integer 1) @ s)
        \<and> (\<exists>s'. as_shape x m = Inr s' \<and> int (length s') = m))
   \<and> (as_shape x 0 = Inr s \<and> int (length s) \<ge> m \<longrightarrow> as_shape x m = Inr s)
   \<and> (list_all is_Integer xs \<and> as_shape (Iterable xs) m = Inr s' \<longrightarrow> list_all is_Integer s')
   \<and> as_shape (Iterable [Integer 2, Integer 3]) 0 = Inr [Integer 2, Integer 3]
   \<and> as_shape (Integer 5) 0 = Inr [Integer 5]
   \<and> as_shape (Integer 5) 3 = Inr [Integer 1, Integer 1, Integer 5]"
proof -
  have pad: "as_shape x m = Inr (replicate (nat m - length s) (Integer 1) @ s)"
    if "as_shape x 0 = Inr s" "int (length s) < m"
    using that by (auto simp: as_shape_def nat_diff_distrib split: pyobj.splits)
  have keep: "as_shape x m = Inr s" if "as_shape x 0 = Inr s" "int (length s) \<ge> m"
    using that by (auto simp: as_shape_def split: pyobj.splits)
  have ints: "list_all is_Integer s'"
    if "list_all is_Integer xs" "as_shape (Iterable xs) m = Inr s'"
    using that by (auto simp: as_shape_def list_all_iff split: if_splits)
  have ex: "\<exists>s'. as_shape x m = Inr s' \<and> int (length s') = m"
    if "as_shape x 0 = Inr s" "int (length s) < m"
    using pad [OF that] that(2) by simp
  have it: "as_shape (Iterable xs) m = Inr (replicate (nat (m - int (length xs))) (Integer 1) @ xs)"
    by (simp add: as_shape_def)
  have sc: "as_shape (Integer i) m = Inr (replicate (nat (m - 1)) (Integer 1) @ [Integer i])"
    by (simp add: as_shape_def)
  have e1: "as_shape (Iterable [Integer 2, Integer 3]) 0 = Inr [Integer 2, Integer 3]"
    by (simp add: as_shape_def)
  have e2: "as_shape (Integer 5) 0 = Inr [Integer 5]"
    by (simp add: as_shape_def)
  have e3: "as_shape (Integer 5) 3 = Inr [Integer 1, Integer 1, Integer 5]"
    by (simp add: as_shape_def numeral_eq_Suc)
  show ?thesis using pad keep ints ex it sc e1 e2 e3 by blast
qed

text \<open>The theorem at \<open>as_shape([4], min_dim=3)\<close>.\<close>

theorem as_shape_tuple_witness:
  "as_shape (Iterable [Integer 4]) 0 = Inr [Integer 4] \<and> int (length [Integer 4]) < 3
   \<and> as_shape (Iterable [Integer 4]) 3 = Inr [Integer 1, Integer 1, Integer 4]
   \<and> list_all is_Integer [Integer 1, Integer 1, Integer 4]"
  using as_shape_tuple [where xs = "[Integer 4]" and m = 3 and x = "Iterable [Integer 4]"
      and s = "[Integer 4]" and s' = "[Integer 1, Integer 1, Integer 4]" and i = 0]
    as_shape_tuple [where xs = "[Integer 4]" and m = 0 and x = "Iterable [Integer 4]"
      and s = "[Integer 4]" and s' = "[Integer 4]" and i = 0]
  by (simp add: numeral_eq_Suc)

text \<open>
  Claim C3 as stated fails: the items are not converted, so \<open>as_shape([2.5])\<close> is
  \<open>(2.5,)\<close>, which is not a tuple of integers.
\<close>

theorem as_shape_non_integer_counterexample:
  "as_shape (Iterable [Other ''2.5'']) 0 = Inr [Other ''2.5'']
   \<and> \<not> list_all is_Integer [Other ''2.5'']"
  by (simp add: as_shape_def)

text \<open>
  Claim C4, as amended. For an \<open>x\<close> that is neither iterable nor an integer,
  \<open>as_shape(x)\<close> raises a \<open>ValueError\<close>, which is not a \<open>TypeError\<close>; its message is
  the \<open>repr\<close> of \<open>x\<close> followed by \<open>cannot be safely converted to a shape\<close>.
\<close>

theorem as_shape_value_error:
  "as_shape (Other r) m = Inl (ValueError (r @ '' cannot be safely converted to a shape''))
   \<and> \<not> is_TypeError (ValueError (r @ '' cannot be safely converted to a shape''))
   \<and> sublist ''cannot be safely converted to a shape''
        (message (ValueError (r @ '' cannot be safely converted to a shape'')))"
proof -
  have "sublist ''cannot be safely converted to a shape''
          (r @ '' '' @ ''cannot be safely converted to a shape'' @ [])"
    unfolding sublist_def by (rule exI [of _ "r @ '' ''"], rule exI [of _ "[]"]) simp
  then show ?thesis by (simp add: as_shape_def)
qed

text \<open>
  Claim C4 as stated fails at \<open>as_shape(2.5)\<close>: the error is a \<open>ValueError\<close>, and its
  message does not contain \<open>cannot be converted to a shape\<close>.
\<close>

theorem as_shape_type_error_counterexample:
  "as_shape (Other ''2.5'') 0 = Inl (ValueError ''2.5 cannot be safely converted to a shape'')
   \<and> \<not> is_TypeError (ValueError ''2.5 cannot be safely converted to a shape'')
   \<and> \<not> sublist ''cannot be converted to a shape''
          (message (ValueError ''2.5 cannot be safely converted to a shape''))"
proof -
  have "\<not> sublist ''cannot be converted to a shape''
          ''2.5 cannot be safely converted to a shape''"
    by code_simp
  then show ?thesis by (simp add: as_shape_def)
qed

section \<open>Properties of \<open>array\<close>\<close>

lemma padded_shape_eq:
  "int (ndim y) < d \<Longrightarrow> padded_shape y d = shape y @ replicate (nat d - ndim y) 1"
  by (simp add: padded_shape_def)

lemma padded_shape_length:
  "int (ndim y) < d \<Longrightarrow> length (padded_shape y d) = nat d"
  by (simp add: padded_shape_eq) (simp add: ndim_def)

lemma array_pad:
  assumes "int (ndim y) < d" and "d \<le> int maxdims"
  shows "array maxdims y (Some d) md ro =
           Inr (y\<lparr>shape := shape y @ replicate (nat d - ndim y) 1,
                  writeable := (if ro then False else writeable y)\<rparr>)"
proof -
  from assms have "\<not> maxdims < length (padded_shape y d)"
    by (simp add: padded_shape_length)
  moreover have "prod_list (padded_shape y d) = prod_list (shape y)"
    using assms(1) by (simp add: padded_shape_eq)
  ultimately have "set_shape maxdims y (padded_shape y d) = Inr (y\<lparr>shape := padded_shape y d\<rparr>)"
    by (simp add: set_shape_def)
  with assms(1) show ?thesis by (simp add: array_def padded_shape_eq)
qed

lemma array_too_many_axes:
  assumes "int (ndim y) < d" and "int maxdims < d"
  shows "array maxdims y (Some d) md ro =
           Inl (ValueError (''maximum supported dimension for an ndarray is ''
                              @ fmt_d (int maxdims) @ '', found '' @ fmt_d d))"
proof -
  from assms have "maxdims < length (padded_shape y d)" "int (length (padded_shape y d)) = d"
    by (simp_all add: padded_shape_length)
  then have "set_shape maxdims y (padded_shape y d) =
      Inl (ValueError (''maximum supported dimension for an ndarray is ''
                              @ fmt_d (int maxdims) @ '', found '' @ fmt_d d))"
    by (simp add: set_shape_def)
  with assms(1) show ?thesis by (simp add: array_def)
qed

text \<open>
  Claim C1, as amended. With \<open>dims\<close> unspecified, \<open>array\<close> uses
  \<open>dims = max(min_dims, y.ndim)\<close>. When the array has fewer than \<open>dims\<close> axes and \<open>dims\<close>
  is within Numpy's limit on the number of axes, the result's shape is the array's
  shape followed by 1s, of exactly \<open>dims\<close> axes, and the elements and their order are
  unchanged; with \<open>dims\<close> above the limit the reshape raises \<open>ValueError\<close>.
  \<open>array([1,2,3], dims=2)\<close> has the shape \<open>(3,1)\<close>.
\<close>

theorem array_right_pads:
  "array maxdims y None min_dims ro =
     array maxdims y (Some (max min_dims (int (ndim y)))) min_dims ro
   \<and> (int (ndim y) < d \<and> d \<le> int maxdims \<longrightarrow>
        (\<exists>y'. array maxdims y (Some d) min_dims ro = Inr y'
              \<and> shape y' = shape y @ replicate (nat d - ndim y) 1
              \<and> int (ndim y') = d
              \<and> data y' = data y))
   \<and> (int (ndim y) < d \<and> int maxdims < d \<longrightarrow>
        (\<exists>m. array maxdims y (Some d) min_dims ro = Inl (ValueError m)))
   \<and> (2 \<le> maxdims \<longrightarrow>
        (\<exists>y'. array maxdims \<lparr>shape = [3], data = [1, 2, 3 :: int], writeable = True\<rparr>
                 (Some 2) 0 False = Inr y'
              \<and> shape y' = [3, 1] \<and> data y' = [1, 2, 3]))"
proof -
  have none: "array maxdims y None min_dims ro =
      array maxdims y (Some (max min_dims (int (ndim y)))) min_dims ro"
    by (simp add: array_def)
  have pad: "\<exists>y'. array maxdims y (Some d) min_dims ro = Inr y'
              \<and> shape y' = shape y @ replicate (nat d - ndim y) 1
              \<and> int (ndim y') = d
              \<and> data y' = data y" if "int (ndim y) < d" "d \<le> int maxdims"
    using that array_pad [OF that, of min_dims ro] by (auto simp: ndim_def)
  have lim: "\<exists>m. array maxdims y (Some d) min_dims ro = Inl (ValueError m)"
    if "int (ndim y) < d" "int maxdims < d"
    using array_too_many_axes [OF that, of min_dims ro] by blast
  have ex: "\<exists>y'. array maxdims \<lparr>shape = [3], data = [1, 2, 3 :: int], writeable = True\<rparr>
                 (Some 2) 0 False = Inr y'
              \<and> shape y' = [3, 1] \<and> data y' = [1, 2, 3]" if "2 \<le> maxdims"
  proof -
    let ?y = "\<lparr>shape = [3], data = [1, 2, 3 :: int], writeable = True\<rparr>"
    have "int (ndim ?y) < 2" by (simp add: ndim_def)
    moreover from that have "2 \<le> int maxdims" by simp
    ultimately have "array maxdims ?y (Some 2) 0 False =
        Inr (?y\<lparr>shape := shape ?y @ replicate (nat 2 - ndim ?y) 1,
                 writeable := (if False then False else writeable ?y)\<rparr>)"
      by (rule array_pad)
    then show ?thesis by (simp add: ndim_def)
  qed
  show ?thesis using none pad lim ex by blast
qed

text \<open>The theorem at an array of shape \<open>(2,2)\<close> with \<open>dims=4\<close> and with \<open>dims=33\<close>.\<close>

theorem array_right_pads_witness:
  "int (ndim \<lparr>shape = [2, 2], data = [5, 6, 7, 8 :: int], writeable = True\<rparr>) < 4
   \<and> (4 :: int) \<le> int 32
   \<and> (\<exists>y'. array 32 \<lparr>shape = [2, 2], data = [5, 6, 7, 8 :: int], writeable = True\<rparr> (Some 4) 0 True = Inr y'
            \<and> shape y' = [2, 2, 1, 1] \<and> data y' = [5, 6, 7, 8])
   \<and> int 32 < (33 :: int)
   \<and> (\<exists>m. array 32 \<lparr>shape = [2, 2], data = [5, 6, 7, 8 :: int], writeable = True\<rparr> (Some 33) 0 True
             = Inl (ValueError m))
   \<and> (\<exists>y'. array 32 \<lparr>shape = [3], data = [1, 2, 3 :: int], writeable = True\<rparr> (Some 2) 0 False = Inr y'
            \<and> shape y' = [3, 1] \<and> data y' = [1, 2, 3])"
  using array_right_pads [of 32 "\<lparr>shape = [2, 2], data = [5, 6, 7, 8 :: int], writeable = True\<rparr>" 0 True 4]
    array_right_pads [of 32 "\<lparr>shape = [2, 2], data = [5, 6, 7, 8 :: int], writeable = True\<rparr>" 0 True 33]
  by (auto simp: ndim_def numeral_eq_Suc)

text \<open>
  Claim C1 as stated fails: \<open>array([1,2,3], dims=65)\<close> has one axis, fewer than
  \<open>dims\<close>, and returns no array of 65 axes: the reshape raises \<open>ValueError\<close>, with
  Numpy's limit of 32 axes and with its limit of 64.
\<close>

theorem array_axis_limit_counterexample:
  "array 32 \<lparr>shape = [3], data = [1, 2, 3 :: int], writeable = True\<rparr> (Some 65) 0 False =
     Inl (ValueError ''maximum supported dimension for an ndarray is 32, found 65'')
   \<and> array 64 \<lparr>shape = [3], data = [1, 2, 3 :: int], writeable = True\<rparr> (Some 65) 0 False =
     Inl (ValueError ''maximum supported dimension for an ndarray is 64, found 65'')"
proof -
  let ?y = "\<lparr>shape = [3], data = [1, 2, 3 :: int], writeable = True\<rparr>"
  have n: "int (ndim ?y) < 65" by (simp add: ndim_def)
  have d32: "fmt_d (int 32) = ''32''" and d64: "fmt_d (int 64) = ''64''" and d65: "fmt_d 65 = ''65''"
    by (simp_all add: fmt_d_def)
  have "array 32 ?y (Some 65) 0 False =
      Inl (ValueError (''maximum supported dimension for an ndarray is ''
                              @ fmt_d (int 32) @ '', found '' @ fmt_d 65))"
    using n by (rule array_too_many_axes) simp
  moreover have "array 64 ?y (Some 65) 0 False =
      Inl (ValueError (''maximum supported dimension for an ndarray is ''
                              @ fmt_d (int 64) @ '', found '' @ fmt_d 65))"
    using n by (rule array_too_many_axes) simp
  ultimately show ?thesis unfolding d32 d64 d65 by simp
qed

text \<open>
  Claim C2. When the array has more than \<open>dims\<close> axes, \<open>array\<close> raises a
  \<open>ValidationError\<close> whose \<open>attr\<close> is \<open>dims\<close>, and returns no array.
\<close>

theorem array_dims_too_small:
  assumes "int (ndim y) > d"
  shows "array maxdims y (Some d) min_dims ro =
           Inl (ValidationError (''Input cannot be cast to array with '' @ fmt_d d @ '' dimensions'')
                  ''dims'')
         \<and> (\<forall>e. array maxdims y (Some d) min_dims ro = Inl e \<longrightarrow> attr e = Some ''dims'')
         \<and> (\<forall>y'. array maxdims y (Some d) min_dims ro \<noteq> Inr y')"
  using assms by (simp add: array_def)

text \<open>The theorem at an array of shape \<open>(2,2)\<close> with \<open>dims=1\<close>.\<close>

theorem array_dims_too_small_witness:
  "int (ndim \<lparr>shape = [2, 2], data = [5, 6, 7, 8 :: int], writeable = True\<rparr>) > 1
   \<and> array 32 \<lparr>shape = [2, 2], data = [5, 6, 7, 8 :: int], writeable = True\<rparr> (Some 1) 0 False =
       Inl (ValidationError ''Input cannot be cast to array with 1 dimensions'' ''dims'')"
  using array_dims_too_small [of 1 "\<lparr>shape = [2, 2], data = [5, 6, 7, 8 :: int], writeable = True\<rparr>" 32 0 False]
  by (simp add: ndim_def fmt_d_def)

text \<open>
  Claim C9. With \<open>dims\<close> unspecified, \<open>array\<close> never raises the \<open>ValidationError\<close>, for
  any array and any \<open>min_dims\<close>: an error it raises has no \<open>attr\<close>. When
  \<open>max(min_dims, y.ndim)\<close> is within Numpy's limit on the number of axes it returns an
  array of that many axes with the same elements.
\<close>

theorem array_default_dims_no_validation_error:
  "array maxdims y None min_dims ro \<noteq> Inl (ValidationError m a)
   \<and> (\<forall>e. array maxdims y None min_dims ro = Inl e \<longrightarrow> attr e = None)
   \<and> (max min_dims (int (ndim y)) \<le> int maxdims \<longrightarrow>
        (\<exists>y'. array maxdims y None min_dims ro = Inr y'
              \<and> int (ndim y') = max min_dims (int (ndim y))
              \<and> data y' = data y))"
proof -
  let ?d = "max min_dims (int (ndim y))"
  have none: "array maxdims y None min_dims ro = array maxdims y (Some ?d) min_dims ro"
    by (simp add: array_def)
  have cases: "(\<exists>y'. array maxdims y None min_dims ro = Inr y'
                  \<and> int (ndim y') = ?d \<and> data y' = data y)
               \<or> (int maxdims < ?d \<and> (\<exists>msg. array maxdims y None min_dims ro = Inl (ValueError msg)))"
  proof (cases "int (ndim y) < ?d")
    case True
    show ?thesis
    proof (cases "?d \<le> int maxdims")
      case le: True
      from array_pad [OF True le, of min_dims ro] show ?thesis
        unfolding none by (auto simp: ndim_def)
    next
      case False
      then have "int maxdims < ?d" by (simp only: not_le)
      from array_too_many_axes [OF True this, of min_dims ro] this show ?thesis
        unfolding none by blast
    qed
  next
    case False
    then have "?d = int (ndim y)" by simp
    then show ?thesis by (simp add: array_def ndim_def)
  qed
  from cases show ?thesis by (auto simp del: max_less_iff_conj)
qed

text \<open>The theorem at an array of shape \<open>(2,2)\<close> with \<open>min_dims=3\<close> and with \<open>min_dims=65\<close>.\<close>

theorem array_default_dims_no_validation_error_witness:
  "max 3 (int (ndim \<lparr>shape = [2, 2], data = [5, 6, 7, 8 :: int], writeable = True\<rparr>)) \<le> int 32
   \<and> (\<exists>y'. array 32 \<lparr>shape = [2, 2], data = [5, 6, 7, 8 :: int], writeable = True\<rparr> None 3 False = Inr y'
        \<and> int (ndim y') = 3 \<and> data y' = [5, 6, 7, 8])
   \<and> array 32 \<lparr>shape = [2, 2], data = [5, 6, 7, 8 :: int], writeable = True\<rparr> None 65 False
       \<noteq> Inl (ValidationError ''Input cannot be cast to array with 65 dimensions'' ''dims'')"
  using array_default_dims_no_validation_error
      [of 32 "\<lparr>shape = [2, 2], data = [5, 6, 7, 8 :: int], writeable = True\<rparr>" 3 False]
    array_default_dims_no_validation_error
      [of 32 "\<lparr>shape = [2, 2], data = [5, 6, 7, 8 :: int], writeable = True\<rparr>" 65 False
        "''Input cannot be cast to array with 65 dimensions''" "''dims''"]
  by (simp add: ndim_def)

section \<open>Properties of \<open>array_hash\<close>\<close>

lemma hash_data_readonly:
  assumes "\<not> obj_writeable (objs h ! v)"
  shows "hash_data env h v =
           hash_contents env (obj_dtype (objs h ! v)) (contents h (objs h ! v))"
  using assms by (simp add: hash_data_def hash_contents_def Let_def split: sum.splits)

lemma view_readonly_objs:
  "objs (set_readonly (snd (new_view h p)) (fst (new_view h p))) =
     objs h @ [(objs h ! p)\<lparr>obj_base := Some p, obj_writeable := False\<rparr>]"
  by (simp add: set_readonly_def new_view_def)

lemma view_readonly_bufs:
  "bufs (set_readonly (snd (new_view h p)) (fst (new_view h p))) = bufs h"
  by (simp add: set_readonly_def new_view_def)

lemma array_readonly_objs:
  "objs (set_readonly (snd (new_array h dt s d)) (fst (new_array h dt s d))) =
     objs h @ [\<lparr>obj_dtype = dt, obj_shape = s, obj_writeable = False, obj_base = None,
                obj_buffer = length (bufs h), obj_elems = [0..<length d]\<rparr>]"
  by (simp add: set_readonly_def new_array_def)

lemma array_readonly_bufs:
  "bufs (set_readonly (snd (new_array h dt s d)) (fst (new_array h dt s d))) = bufs h @ [d]"
  by (simp add: set_readonly_def new_array_def)

lemma contents_cong:
  "bufs h' ! obj_buffer ob' = bufs h ! obj_buffer ob \<Longrightarrow> obj_elems ob' = obj_elems ob \<Longrightarrow>
   contents h' ob' = contents h ob"
  by (simp add: contents_def)

lemma hash_view:
  "hash_data env (set_readonly (snd (new_view h p)) (fst (new_view h p))) (fst (new_view h p)) =
     hash_contents env (obj_dtype (objs h ! p)) (contents h (objs h ! p))"
proof -
  let ?h2 = "set_readonly (snd (new_view h p)) (fst (new_view h p))"
  let ?v = "fst (new_view h p)"
  have v: "?v = length (objs h)" by (simp add: new_view_def)
  have ob: "objs ?h2 ! ?v = (objs h ! p)\<lparr>obj_base := Some p, obj_writeable := False\<rparr>"
    by (simp add: set_readonly_def new_view_def)
  have c: "contents ?h2 (objs ?h2 ! ?v) = contents h (objs h ! p)"
    unfolding ob by (rule contents_cong) (simp_all add: view_readonly_bufs)
  have "hash_data env ?h2 ?v =
          hash_contents env (obj_dtype (objs ?h2 ! ?v)) (contents ?h2 (objs ?h2 ! ?v))"
    by (rule hash_data_readonly) (simp add: ob)
  then show ?thesis unfolding c by (simp add: ob)
qed

lemma hash_new_array:
  "hash_data env (set_readonly (snd (new_array h dt s d)) (fst (new_array h dt s d)))
     (fst (new_array h dt s d)) = hash_contents env dt d"
proof -
  let ?h2 = "set_readonly (snd (new_array h dt s d)) (fst (new_array h dt s d))"
  let ?v = "fst (new_array h dt s d)"
  let ?ob = "\<lparr>obj_dtype = dt, obj_shape = s, obj_writeable = False, obj_base = None,
                obj_buffer = length (bufs h), obj_elems = [0..<length d]\<rparr>"
  have v: "?v = length (objs h)" by (simp add: new_array_def)
  have ob: "objs ?h2 ! ?v = ?ob"
    by (simp add: set_readonly_def new_array_def)
  have c: "contents ?h2 ?ob = d"
    unfolding contents_def array_readonly_bufs by (simp add: map_nth)
  have "hash_data env ?h2 ?v =
          hash_contents env (obj_dtype (objs ?h2 ! ?v)) (contents ?h2 (objs ?h2 ! ?v))"
    by (rule hash_data_readonly) (simp add: ob)
  then show ?thesis unfolding ob c by simp
qed

text \<open>The result and the store after the call, branch by branch.\<close>

text \<open>The result and the store after the call, branch by branch.\<close>

lemma array_hash_small:
  assumes "int (size_of (objs h ! p)) < n"
  shows "array_hash env h (Array p) n =
           (hash_contents env (obj_dtype (objs h ! p)) (contents h (objs h ! p)),
            set_readonly (snd (new_view h p)) (fst (new_view h p)))"
  using assms by (simp add: array_hash_def Let_def split_beta hash_view)

lemma array_hash_large:
  assumes "\<not> int (size_of (objs h ! p)) < n"
  shows "array_hash env h (Array p) n =
           (case indices env (objs h ! p) n of
              Inl e \<Rightarrow> (Inl e, h)
            | Inr inds \<Rightarrow>
                (case getitem env (obj_shape (objs h ! p)) (contents h (objs h ! p)) inds of
                   Inl e \<Rightarrow> (Inl e, h)
                 | Inr (s, d) \<Rightarrow>
                     (hash_contents env (obj_dtype (objs h ! p)) d,
                      set_readonly (snd (new_array h (obj_dtype (objs h ! p)) s d))
                        (fst (new_array h (obj_dtype (objs h ! p)) s d)))))"
  using assms
  by (simp add: array_hash_def Let_def split_beta hash_new_array split: sum.splits prod.splits)


lemma array_hash_extends:
  "\<exists>os bs. objs (snd (array_hash env h a n)) = objs h @ os
           \<and> bufs (snd (array_hash env h a n)) = bufs h @ bs"
proof (cases a)
  case (NotArray x)
  then show ?thesis by (simp add: array_hash_def)
next
  case (Array p)
  show ?thesis
  proof (cases "int (size_of (objs h ! p)) < n")
    case True
    show ?thesis
      unfolding Array array_hash_small [OF True]
      by (simp add: view_readonly_objs view_readonly_bufs)
  next
    case False
    show ?thesis
      unfolding Array array_hash_large [OF False]
      by (simp add: array_readonly_objs array_readonly_bufs split: sum.splits prod.splits)
  qed
qed




lemma ex_obj0: "objs ex_heap ! 0 = \<lparr>obj_dtype = ''int8'', obj_shape = [4], obj_writeable = True,
                        obj_base = None, obj_buffer = 0, obj_elems = [0, 1, 2, 3]\<rparr>"
  by (simp add: ex_heap_def)


lemma ex_contents0: "contents ex_heap (objs ex_heap ! 0) = [5, 6, 7, 8]"
  unfolding ex_obj0 by (simp add: contents_def ex_heap_def)


lemma ex_size0: "size_of (objs ex_heap ! 0) = 4"
  unfolding ex_obj0 by (simp add: size_of_def)


lemma ex_hash_all: "hash_contents ex_env ''int8'' [5, 6, 7, 8] = Inr 26"
  by (simp add: hash_contents_def ex_env_def ex_env_with_def uint_word_of_int)











text \<open>
  Claim C10. After \<open>array_hash(a)\<close>, whether it returned or raised, the object \<open>a\<close> is
  as it was, its writeable flag included, and so are its elements, every other object
  and every buffer that existed before. Below the threshold the only change to the
  store is one new object: a view of \<open>a\<close> on the buffer of \<open>a\<close>, not writeable.
\<close>

theorem array_hash_frame:
  assumes "valid h p"
  shows "objs (snd (array_hash env h (Array p) n)) ! p = objs h ! p
         \<and> obj_writeable (objs (snd (array_hash env h (Array p) n)) ! p) = obj_writeable (objs h ! p)
         \<and> contents (snd (array_hash env h (Array p) n)) (objs (snd (array_hash env h (Array p) n)) ! p)
             = contents h (objs h ! p)
         \<and> take (length (objs h)) (objs (snd (array_hash env h (Array p) n))) = objs h
         \<and> take (length (bufs h)) (bufs (snd (array_hash env h (Array p) n))) = bufs h
         \<and> (int (size_of (objs h ! p)) < n \<longrightarrow>
              objs (snd (array_hash env h (Array p) n)) =
                objs h @ [(objs h ! p)\<lparr>obj_base := Some p, obj_writeable := False\<rparr>]
              \<and> bufs (snd (array_hash env h (Array p) n)) = bufs h)"
proof -
  let ?h' = "snd (array_hash env h (Array p) n)"
  from array_hash_extends [of env h "Array p" n] obtain os bs where
    os: "objs ?h' = objs h @ os" and bs: "bufs ?h' = bufs h @ bs"
    by blast
  from assms have p: "p < length (objs h)" and b: "obj_buffer (objs h ! p) < length (bufs h)"
    by (simp_all add: valid_def)
  have same: "objs ?h' ! p = objs h ! p"
    unfolding os using p by (simp add: nth_append)
  have buf: "bufs ?h' ! obj_buffer (objs h ! p) = bufs h ! obj_buffer (objs h ! p)"
    unfolding bs using b by (simp add: nth_append)
  have cont: "contents ?h' (objs ?h' ! p) = contents h (objs h ! p)"
    unfolding same using buf by (simp add: contents_def)
  have t1: "take (length (objs h)) (objs ?h') = objs h"
    unfolding os by simp
  have t2: "take (length (bufs h)) (bufs ?h') = bufs h"
    unfolding bs by simp
  have view: "objs ?h' = objs h @ [(objs h ! p)\<lparr>obj_base := Some p, obj_writeable := False\<rparr>]
              \<and> bufs ?h' = bufs h"
    if "int (size_of (objs h ! p)) < n"
    unfolding array_hash_small [OF that]
    by (simp add: view_readonly_objs view_readonly_bufs)
  from same cont t1 t2 view show ?thesis by simp
qed

text \<open>
  The theorem at a writeable array: it is writeable after the call, and the new view,
  on the same buffer, is not.
\<close>

theorem array_hash_frame_witness:
  "valid ex_heap 0
   \<and> obj_writeable (objs ex_heap ! 0)
   \<and> obj_writeable (objs (snd (array_hash ex_env ex_heap (Array 0) 100)) ! 0)
   \<and> contents (snd (array_hash ex_env ex_heap (Array 0) 100))
        (objs (snd (array_hash ex_env ex_heap (Array 0) 100)) ! 0) = [5, 6, 7, 8]
   \<and> \<not> obj_writeable (objs (snd (array_hash ex_env ex_heap (Array 0) 100)) ! 2)
   \<and> obj_buffer (objs (snd (array_hash ex_env ex_heap (Array 0) 100)) ! 2) = 0"
proof -
  have v: "valid ex_heap 0" by (simp add: valid_def ex_heap_def)
  have small: "int (size_of (objs ex_heap ! 0)) < 100"
    unfolding ex_size0 by simp
  have len: "length (objs ex_heap) = 2" by (simp add: ex_heap_def)
  note fr = array_hash_frame [OF v, of ex_env 100]
  have w0: "obj_writeable (objs ex_heap ! 0)" by (simp add: ex_obj0)
  from fr have "obj_writeable (objs (snd (array_hash ex_env ex_heap (Array 0) 100)) ! 0) =
      obj_writeable (objs ex_heap ! 0)"
    by blast
  with w0 have w: "obj_writeable (objs (snd (array_hash ex_env ex_heap (Array 0) 100)) ! 0)"
    by blast
  from fr have "contents (snd (array_hash ex_env ex_heap (Array 0) 100))
        (objs (snd (array_hash ex_env ex_heap (Array 0) 100)) ! 0) =
      contents ex_heap (objs ex_heap ! 0)"
    by blast
  then have c: "contents (snd (array_hash ex_env ex_heap (Array 0) 100))
        (objs (snd (array_hash ex_env ex_heap (Array 0) 100)) ! 0) = [5, 6, 7, 8]"
    unfolding ex_contents0 .
  from fr small have o: "objs (snd (array_hash ex_env ex_heap (Array 0) 100)) =
      objs ex_heap @ [(objs ex_heap ! 0)\<lparr>obj_base := Some 0, obj_writeable := False\<rparr>]"
    by blast
  have n2: "objs (snd (array_hash ex_env ex_heap (Array 0) 100)) ! 2 =
      (objs ex_heap ! 0)\<lparr>obj_base := Some 0, obj_writeable := False\<rparr>"
    unfolding o using len by (simp add: nth_append)
  from v w0 w c show ?thesis unfolding n2 by (simp add: ex_obj0)
qed

section \<open>Properties of \<open>rmse\<close>\<close>

text \<open>
  Claim C6. When \<open>x - y\<close> is defined, \<open>rmse(x, y, axis, keepdims)\<close> is
  \<open>rms(x - y, axis, keepdims)\<close>; when the subtraction fails, \<open>rmse\<close> fails with its
  error; and \<open>rmse\<close> is the specification's difference first, then square root of the
  mean of the squares.
\<close>

theorem rmse_is_rms_of_difference:
  "(np_subtract np x y = Inr d \<longrightarrow>
      rmse np x y axis keepdims = rms np d axis keepdims)
   \<and> (np_subtract np x y = Inl e \<longrightarrow> rmse np x y axis keepdims = Inl e)
   \<and> rmse np x y axis keepdims = rmse_spec np x y axis keepdims"
  by (simp add: rmse_def rms_def rmse_spec_def split: sum.splits)

text \<open>The theorem at \<open>rmse([1,2,3], [1,2,3])\<close>, which is 0.\<close>

theorem rmse_is_rms_of_difference_witness:
  "np_subtract ex_np [Finite 1, Finite 2, Finite 3] [Finite 1, Finite 2, Finite 3]
     = Inr [Finite 0, Finite 0, Finite 0]
   \<and> rms ex_np [Finite 0, Finite 0, Finite 0] () False = Inr [Finite 0]
   \<and> rmse ex_np [Finite 1, Finite 2, Finite 3] [Finite 1, Finite 2, Finite 3] () False
     = Inr [Finite 0]"
proof -
  have sub: "np_subtract ex_np [Finite 1, Finite 2, Finite 3] [Finite 1, Finite 2, Finite 3]
     = Inr [Finite 0, Finite 0, Finite 0]"
    by (simp add: ex_np_def ex_subtract_def)
  have r: "rms ex_np [Finite 0, Finite 0, Finite 0] () False = Inr [Finite 0]"
    by (simp add: rms_def ex_np_def)
  from rmse_is_rms_of_difference [of ex_np "[Finite 1, Finite 2, Finite 3]"
      "[Finite 1, Finite 2, Finite 3]" "[Finite 0, Finite 0, Finite 0]" "()" False] sub r
  show ?thesis by simp
qed

section \<open>Properties of \<open>rfftfreq\<close>\<close>

lemma slice_to_take:
  assumes "0 < n"
  shows "slice_to fs (n div 2 + 1) = take (nat (n div 2 + 1)) fs"
proof -
  from assms have "0 \<le> n div 2 + 1" by linarith
  then show ?thesis unfolding slice_to_def by (rule if_P)
qed

lemma slice_to_length:
  assumes "0 < n" and "length fs = nat n"
  shows "length (slice_to fs (n div 2 + 1)) = nat (n div 2 + 1)"
proof -
  from assms(1) have "n div 2 + 1 \<le> n" by linarith
  then have "nat (n div 2 + 1) \<le> nat n" by (rule nat_mono)
  with assms(2) show ?thesis
    unfolding slice_to_take [OF assms(1)] by (simp only: length_take min_absorb2)
qed

text \<open>
  Claim C7. For a positive \<open>n\<close> for which \<open>fftfreq(n, d)\<close> returns its \<open>n\<close>
  frequencies, the fallback \<open>rfftfreq(n, d)\<close> returns \<open>n // 2 + 1\<close> values, none
  negative, the absolute values of the first \<open>n // 2 + 1\<close> frequencies.
\<close>

theorem rfftfreq_polyfill:
  assumes "0 < n" and "fftfreq n d = Inr fs" and "length fs = nat n"
  shows "\<exists>rs. rfftfreq fftfreq n d = Inr rs
           \<and> length rs = nat (n div 2 + 1)
           \<and> (\<forall>r \<in> set rs. 0 \<le> r)
           \<and> (\<forall>i < nat (n div 2 + 1). rs ! i = \<bar>fs ! i\<bar>)"
proof (intro exI conjI)
  let ?k = "nat (n div 2 + 1)"
  let ?rs = "map abs (slice_to fs (n div 2 + 1))"
  have len: "length (slice_to fs (n div 2 + 1)) = ?k"
    using assms(1,3) by (rule slice_to_length)
  show "rfftfreq fftfreq n d = Inr ?rs"
    unfolding rfftfreq_def assms(2) by simp
  show "length ?rs = ?k"
    using len by simp
  show "\<forall>r \<in> set ?rs. 0 \<le> r"
    by (simp add: image_iff)
  show "\<forall>i < ?k. ?rs ! i = \<bar>fs ! i\<bar>"
  proof (intro allI impI)
    fix i assume i: "i < ?k"
    with len have "?rs ! i = \<bar>slice_to fs (n div 2 + 1) ! i\<bar>"
      by (simp only: nth_map)
    also have "slice_to fs (n div 2 + 1) ! i = fs ! i"
      unfolding slice_to_take [OF assms(1)] using i by (rule nth_take)
    finally show "?rs ! i = \<bar>fs ! i\<bar>" .
  qed
qed

lemma upto_lower_8: "[0..(8 - 1) div 2] = [0, 1, 2, 3 :: int]"
  by code_simp

lemma upto_upper_8: "[- (8 div 2)..- 1] = [- 4, - 3, - 2, - 1 :: int]"
  by code_simp

lemma np_fftfreq_8: "np_fftfreq 8 1 = Inr [0, 1/8, 2/8, 3/8, -4/8, -3/8, -2/8, -1/8]"
  unfolding np_fftfreq_def upto_lower_8 upto_upper_8 by simp

text \<open>The theorem at \<open>rfftfreq(8, 1.0)\<close>: five values, none negative.\<close>

theorem rfftfreq_polyfill_witness:
  "(0::int) < 8
   \<and> np_fftfreq 8 1 = Inr [0, 1/8, 2/8, 3/8, -4/8, -3/8, -2/8, -1/8]
   \<and> (\<exists>rs. rfftfreq np_fftfreq 8 1 = Inr rs \<and> length rs = 5 \<and> (\<forall>r \<in> set rs. 0 \<le> r))
   \<and> rfftfreq np_fftfreq 8 1 = Inr [0, 1/8, 1/4, 3/8, 1/2]"
proof -
  have f: "np_fftfreq 8 1 = Inr [0, 1/8, 2/8, 3/8, -4/8, -3/8, -2/8, -1/8]"
    by (rule np_fftfreq_8)
  have l: "length [0, 1/8, 2/8, 3/8, -4/8, -3/8, -2/8, -1/8 :: real] = nat 8"
    by simp
  have n: "nat (8 div 2 + 1) = 5"
    by simp
  have v: "rfftfreq np_fftfreq 8 1 = Inr [0, 1/8, 1/4, 3/8, 1/2]"
    unfolding rfftfreq_def f slice_to_def by simp
  have p: "(0::int) < 8"
    by simp
  from rfftfreq_polyfill [of 8 np_fftfreq 1, OF p f l]
  have "\<exists>rs. rfftfreq np_fftfreq 8 1 = Inr rs \<and> length rs = 5 \<and> (\<forall>r \<in> set rs. 0 \<le> r)"
    unfolding n by (elim exE conjE) (intro exI conjI, assumption+)
  with p f v show ?thesis by (intro conjI)
qed

end
